theory Spec2Isabelle
  imports Complex_Main
begin

section \<open>CUCM CDR failed-call reporter: data model\<close>

text \<open>
  The development follows \<^verbatim>\<open>cucm_cdr_reporter.py\<close>. Python \<^verbatim>\<open>int\<close> is HOL \<open>int\<close>;
  a Python \<^verbatim>\<open>str\<close> is a HOL \<open>string\<close> whose characters stand for the code points
  U+0000 to U+00FF. Exceptions are values of \<open>py_error\<close>; a function that can raise
  returns \<open>py_error + 'a\<close> with \<open>Inl\<close> for the exception.
\<close>

datatype py_error = ValueError | TypeError | OverflowError | OSError | ZeroDivisionError

text \<open>
  A \<^verbatim>\<open>datetime\<close> is naive wall-clock time, counted in microseconds since
  0001-01-01 00:00:00 (Python's \<^verbatim>\<open>datetime.min\<close>). Python bounds it by
  9999-12-31 23:59:59.999999 and bounds a \<^verbatim>\<open>timedelta\<close> by one thousand million days;
  arithmetic that leaves either range raises \<^verbatim>\<open>OverflowError\<close>.
\<close>

type_synonym datetime = int

definition datetime_max :: datetime where
  "datetime_max = 3652059 * 86400000000 - 1"

definition timedelta :: "int \<Rightarrow> py_error + int" where
  "timedelta us =
     (if - 999999999 * 86400000000 \<le> us \<and> us < 1000000000 * 86400000000
      then Inr us else Inl OverflowError)"

definition timedelta_days :: "int \<Rightarrow> py_error + int" where
  "timedelta_days n = timedelta (n * 86400000000)"

definition timedelta_hours :: "int \<Rightarrow> py_error + int" where
  "timedelta_hours n = timedelta (n * 3600000000)"

definition datetime_sub :: "datetime \<Rightarrow> int \<Rightarrow> py_error + datetime" where
  "datetime_sub d td =
     (if 0 \<le> d - td \<and> d - td \<le> datetime_max then Inr (d - td) else Inl OverflowError)"

subsection \<open>Q.931 cause codes\<close>

definition CAUSE_CODES :: "(int \<times> string) list" where
  "CAUSE_CODES =
   [(0, ''No error''),
    (1, ''Unallocated/unassigned number''),
    (2, ''No route to specified transit network''),
    (3, ''No route to destination''),
    (4, ''Send special information tone''),
    (5, ''Misdialed trunk prefix''),
    (6, ''Channel unacceptable''),
    (7, ''Call awarded and being delivered''),
    (16, ''Normal call clearing''),
    (17, ''User busy''),
    (18, ''No user responding''),
    (19, ''No answer from user (user alerted)''),
    (20, ''Subscriber absent''),
    (21, ''Call rejected''),
    (22, ''Number changed''),
    (23, ''Redirection to new destination''),
    (25, ''Exchange routing error''),
    (26, ''Non-selected user clearing''),
    (27, ''Destination out of order''),
    (28, ''Invalid number format''),
    (29, ''Facility rejected''),
    (30, ''Response to STATUS ENQUIRY''),
    (31, ''Normal, unspecified''),
    (34, ''No circuit/channel available''),
    (38, ''Network out of order''),
    (39, ''Permanent frame mode connection out of service''),
    (40, ''Permanent frame mode connection operational''),
    (41, ''Temporary failure''),
    (42, ''Switching equipment congestion''),
    (43, ''Access information discarded''),
    (44, ''Requested circuit/channel not available''),
    (46, ''Precedence call blocked''),
    (47, ''Resource unavailable, unspecified''),
    (49, ''Quality of service not available''),
    (50, ''Requested facility not subscribed''),
    (52, ''Outgoing calls barred''),
    (54, ''Incoming calls barred''),
    (57, ''Bearer capability not authorized''),
    (58, ''Bearer capability not presently available''),
    (62, ''Inconsistency in designated outgoing access''),
    (63, ''Service or option not available''),
    (65, ''Bearer capability not implemented''),
    (66, ''Channel type not implemented''),
    (69, ''Requested facility not implemented''),
    (70, ''Only restricted digital bearer capability available''),
    (79, ''Service or option not implemented''),
    (81, ''Invalid call reference value''),
    (82, ''Identified channel does not exist''),
    (83, ''Suspended call exists but call identity does not''),
    (84, ''Call identity in use''),
    (85, ''No call suspended''),
    (86, ''Call having requested identity has been cleared''),
    (87, ''User not member of CUG''),
    (88, ''Incompatible destination''),
    (90, ''Non-existent CUG''),
    (91, ''Invalid transit network selection''),
    (95, ''Invalid message, unspecified''),
    (96, ''Mandatory IE missing''),
    (97, ''Message type non-existent''),
    (98, ''Message not compatible with call state''),
    (99, ''IE non-existent or not implemented''),
    (100, ''Invalid IE contents''),
    (101, ''Message not compatible with call state''),
    (102, ''Recovery on timer expiry''),
    (103, ''Parameter non-existent or not implemented''),
    (110, ''Message with unrecognized parameter discarded''),
    (111, ''Protocol error, unspecified''),
    (127, ''Interworking, unspecified''),
    (393216, ''Normal clearing (Cisco)''),
    (458752, ''Call rejected (Cisco)'')]"

definition SUCCESS_CODES :: "int set" where
  "SUCCESS_CODES = {0, 16, 393216}"

subsection \<open>Decimal rendering of an integer (\<^verbatim>\<open>str(n)\<close>, \<^verbatim>\<open>f"{n}"\<close>)\<close>

definition digit_char :: "nat \<Rightarrow> char" where
  "digit_char d = ''0123456789'' ! d"

fun nat_digits :: "nat \<Rightarrow> string" where
  "nat_digits n =
     (if n < 10 then [digit_char n] else nat_digits (n div 10) @ [digit_char (n mod 10)])"

declare nat_digits.simps [simp del]

definition str_int :: "int \<Rightarrow> string" where
  "str_int i = (if i < 0 then CHR ''-'' # nat_digits (nat (- i)) else nat_digits (nat i))"

subsection \<open>\<^verbatim>\<open>CDRRecord\<close>\<close>

record CDRRecord =
  cdr_record_type :: int
  global_call_id :: string
  date_time_origination :: "datetime option"
  date_time_connect :: "datetime option"
  date_time_disconnect :: "datetime option"
  calling_party_number :: string
  calling_party_unicode_name :: string
  original_called_party_number :: string
  final_called_party_number :: string
  last_redirect_dn :: string
  orig_cause_value :: int
  dest_cause_value :: int
  duration :: int
  orig_device_name :: string
  dest_device_name :: string
  orig_ip_addr :: string
  dest_ip_addr :: string
  calling_party_number_partition :: string
  original_called_party_number_partition :: string
  final_called_party_number_partition :: string
  hunt_pilot_dn :: string
  hunt_pilot_partition :: string
  call_termination_on_behalf_of :: int
  orig_dtmf_method :: int
  dest_dtmf_method :: int
  mobile_calling_party_number :: string
  mobile_called_party_number :: string
  calling_party_device_type :: string
  final_called_party_device_type :: string
  orig_video_cap_bandwidth :: int
  dest_video_cap_bandwidth :: int

text \<open>The dataclass defaults: the record built by \<^verbatim>\<open>CDRRecord()\<close>.\<close>

definition CDRRecord_default :: CDRRecord where
  "CDRRecord_default =
     \<lparr>cdr_record_type = 0, global_call_id = [], date_time_origination = None,
      date_time_connect = None, date_time_disconnect = None, calling_party_number = [],
      calling_party_unicode_name = [], original_called_party_number = [],
      final_called_party_number = [], last_redirect_dn = [], orig_cause_value = 0,
      dest_cause_value = 0, duration = 0, orig_device_name = [], dest_device_name = [],
      orig_ip_addr = [], dest_ip_addr = [], calling_party_number_partition = [],
      original_called_party_number_partition = [],
      final_called_party_number_partition = [], hunt_pilot_dn = [],
      hunt_pilot_partition = [], call_termination_on_behalf_of = 0, orig_dtmf_method = 0,
      dest_dtmf_method = 0, mobile_calling_party_number = [],
      mobile_called_party_number = [], calling_party_device_type = [],
      final_called_party_device_type = [], orig_video_cap_bandwidth = 0,
      dest_video_cap_bandwidth = 0\<rparr>"

definition is_failed :: "CDRRecord \<Rightarrow> bool" where
  "is_failed r =
     (if duration r = 0
      then (if dest_cause_value r \<notin> SUCCESS_CODES then True
            else if orig_cause_value r \<notin> SUCCESS_CODES then True
            else False)
      else False)"

text \<open>\<^verbatim>\<open>CAUSE_CODES.get(cause, f"Unknown cause code: {cause}")\<close>\<close>

definition cause_text :: "int \<Rightarrow> string" where
  "cause_text cause =
     (case map_of CAUSE_CODES cause of
        Some t \<Rightarrow> t
      | None \<Rightarrow> ''Unknown cause code: '' @ str_int cause)"

definition failure_reason :: "CDRRecord \<Rightarrow> string" where
  "failure_reason r =
     (let cause = (if dest_cause_value r \<noteq> 0 then dest_cause_value r
                   else orig_cause_value r)
      in cause_text cause)"

definition primary_cause_code :: "CDRRecord \<Rightarrow> int" where
  "primary_cause_code r =
     (if dest_cause_value r \<noteq> 0 then dest_cause_value r else orig_cause_value r)"

section \<open>CDR parsing (\<^verbatim>\<open>CDRParser\<close>)\<close>

definition CDR_FIELDS :: "(nat \<times> string) list" where
  "CDR_FIELDS =
   [(0, ''cdrRecordType''),
    (1, ''globalCallID_callManagerId''),
    (2, ''globalCallID_callId''),
    (3, ''origLegCallIdentifier''),
    (4, ''dateTimeOrigination''),
    (5, ''origNodeId''),
    (6, ''origSpan''),
    (7, ''origIpAddr''),
    (8, ''callingPartyNumber''),
    (9, ''callingPartyUnicodeLoginUserID''),
    (10, ''origCause_location''),
    (11, ''origCause_value''),
    (12, ''origPrecedenceLevel''),
    (13, ''origMediaTransportAddress_IP''),
    (14, ''origMediaTransportAddress_Port''),
    (15, ''origMediaCap_payloadCapability''),
    (16, ''origMediaCap_maxFramesPerPacket''),
    (17, ''origMediaCap_g723BitRate''),
    (18, ''origVideoCap_Codec''),
    (19, ''origVideoCap_Bandwidth''),
    (20, ''origVideoCap_Resolution''),
    (21, ''origVideoTransportAddress_IP''),
    (22, ''origVideoTransportAddress_Port''),
    (23, ''origRSVPAudioStat''),
    (24, ''origRSVPVideoStat''),
    (25, ''destLegCallIdentifier''),
    (26, ''destNodeId''),
    (27, ''destSpan''),
    (28, ''destIpAddr''),
    (29, ''originalCalledPartyNumber''),
    (30, ''finalCalledPartyNumber''),
    (31, ''finalCalledPartyUnicodeLoginUserID''),
    (32, ''destCause_location''),
    (33, ''destCause_value''),
    (34, ''destPrecedenceLevel''),
    (35, ''destMediaTransportAddress_IP''),
    (36, ''destMediaTransportAddress_Port''),
    (37, ''destMediaCap_payloadCapability''),
    (38, ''destMediaCap_maxFramesPerPacket''),
    (39, ''destMediaCap_g723BitRate''),
    (40, ''destVideoCap_Codec''),
    (41, ''destVideoCap_Bandwidth''),
    (42, ''destVideoCap_Resolution''),
    (43, ''destVideoTransportAddress_IP''),
    (44, ''destVideoTransportAddress_Port''),
    (45, ''destRSVPAudioStat''),
    (46, ''destRSVPVideoStat''),
    (47, ''dateTimeConnect''),
    (48, ''dateTimeDisconnect''),
    (49, ''lastRedirectDn''),
    (50, ''pkid''),
    (51, ''originalCalledPartyNumberPartition''),
    (52, ''callingPartyNumberPartition''),
    (53, ''finalCalledPartyNumberPartition''),
    (54, ''lastRedirectDnPartition''),
    (55, ''duration''),
    (56, ''origDeviceName''),
    (57, ''destDeviceName''),
    (101, ''huntPilotDN''),
    (102, ''huntPilotPartition'')]"

subsection \<open>\<^verbatim>\<open>str.strip()\<close> and \<^verbatim>\<open>int(str)\<close>\<close>

text \<open>
  The whitespace of \<^verbatim>\<open>str.strip()\<close> and of \<^verbatim>\<open>int()\<close> below U+0100: the
  characters for which \<^verbatim>\<open>str.isspace()\<close> holds.
\<close>

definition is_space :: "char \<Rightarrow> bool" where
  "is_space c = (of_char c \<in> {9, 10, 11, 12, 13, 28, 29, 30, 31, 32, 133, 160 :: nat})"

definition strip :: "string \<Rightarrow> string" where
  "strip s = rev (dropWhile is_space (rev (dropWhile is_space s)))"

definition is_digit :: "char \<Rightarrow> bool" where
  "is_digit c = (48 \<le> (of_char c :: nat) \<and> (of_char c :: nat) \<le> 57)"

definition digit_val :: "char \<Rightarrow> nat" where
  "digit_val c = of_char c - 48"

text \<open>
  The digits after the first one: decimal digits, with single underscores allowed
  between two digits (Python 3.6 and later).
\<close>

fun parse_digits :: "nat \<Rightarrow> string \<Rightarrow> nat option" where
  "parse_digits acc [] = Some acc"
| "parse_digits acc [c] = (if is_digit c then Some (10 * acc + digit_val c) else None)"
| "parse_digits acc (c # d # cs) =
     (if is_digit c then parse_digits (10 * acc + digit_val c) (d # cs)
      else if c = CHR ''_'' \<and> is_digit d then parse_digits (10 * acc + digit_val d) cs
      else None)"

definition parse_number :: "string \<Rightarrow> nat option" where
  "parse_number s =
     (case s of
        [] \<Rightarrow> None
      | c # cs \<Rightarrow> if is_digit c then parse_digits (digit_val c) cs else None)"

text \<open>
  \<^verbatim>\<open>int(s)\<close> for a string: surrounding whitespace is dropped, one sign is allowed,
  and \<open>None\<close> stands for \<^verbatim>\<open>ValueError\<close>. The interpreter's configurable limit on
  the number of digits is not part of the model.
\<close>

definition py_int :: "string \<Rightarrow> int option" where
  "py_int s =
     (case strip s of
        [] \<Rightarrow> None
      | c # cs \<Rightarrow>
          if c = CHR ''-'' then map_option (\<lambda>n. - int n) (parse_number cs)
          else if c = CHR ''+'' then map_option int (parse_number cs)
          else map_option int (parse_number (c # cs)))"

subsection \<open>Field access\<close>

definition safe_int :: "string \<Rightarrow> int \<Rightarrow> int" where
  "safe_int v dflt =
     (if v \<noteq> [] then (case py_int v of Some n \<Rightarrow> n | None \<Rightarrow> dflt) else dflt)"

text \<open>
  \<^verbatim>\<open>datetime.fromtimestamp\<close> depends on the platform (time zone, range of
  \<^verbatim>\<open>time_t\<close>), so it is a parameter: it returns the local time or raises.
\<close>

type_synonym fromtimestamp = "int \<Rightarrow> py_error + datetime"

definition parse_timestamp :: "fromtimestamp \<Rightarrow> string \<Rightarrow> py_error + datetime option" where
  "parse_timestamp fts epoch_str =
     (case (if epoch_str \<noteq> [] then py_int epoch_str else Some 0) of
        None \<Rightarrow> Inr None
      | Some epoch \<Rightarrow>
          if epoch > 0 then
            (case fts epoch of
               Inr d \<Rightarrow> Inr (Some d)
             | Inl ValueError \<Rightarrow> Inr None
             | Inl TypeError \<Rightarrow> Inr None
             | Inl e \<Rightarrow> Inl e)
          else Inr None)"

fun get_field_in :: "(nat \<times> string) list \<Rightarrow> string list \<Rightarrow> string \<Rightarrow> string" where
  "get_field_in [] row field_name = []"
| "get_field_in ((idx, name) # rest) row field_name =
     (if name = field_name \<and> idx < length row
      then (if row ! idx \<noteq> [] then strip (row ! idx) else [])
      else get_field_in rest row field_name)"

definition get_field :: "string list \<Rightarrow> string \<Rightarrow> string" where
  "get_field row field_name = get_field_in CDR_FIELDS row field_name"

definition get_field_int :: "string list \<Rightarrow> string \<Rightarrow> int" where
  "get_field_int row field_name = safe_int (get_field row field_name) 0"

subsection \<open>\<^verbatim>\<open>parse_file\<close>\<close>

text \<open>
  The constructor call of the loop body. The three timestamps are the only arguments
  whose evaluation can raise; they are evaluated in the order of the keyword arguments.
\<close>

definition make_record :: "fromtimestamp \<Rightarrow> string list \<Rightarrow> int \<Rightarrow> py_error + CDRRecord" where
  "make_record fts row record_type =
     (case parse_timestamp fts (get_field row ''dateTimeOrigination'') of
        Inl e \<Rightarrow> Inl e
      | Inr origination \<Rightarrow>
     (case parse_timestamp fts (get_field row ''dateTimeConnect'') of
        Inl e \<Rightarrow> Inl e
      | Inr connect \<Rightarrow>
     (case parse_timestamp fts (get_field row ''dateTimeDisconnect'') of
        Inl e \<Rightarrow> Inl e
      | Inr disconnect \<Rightarrow>
          Inr (CDRRecord_default
            \<lparr>cdr_record_type := record_type,
             global_call_id :=
               get_field row ''globalCallID_callManagerId'' @ ''-'' @
               get_field row ''globalCallID_callId'',
             date_time_origination := origination,
             date_time_connect := connect,
             date_time_disconnect := disconnect,
             calling_party_number := get_field row ''callingPartyNumber'',
             original_called_party_number := get_field row ''originalCalledPartyNumber'',
             final_called_party_number := get_field row ''finalCalledPartyNumber'',
             last_redirect_dn := get_field row ''lastRedirectDn'',
             orig_cause_value := get_field_int row ''origCause_value'',
             dest_cause_value := get_field_int row ''destCause_value'',
             duration := get_field_int row ''duration'',
             orig_device_name := get_field row ''origDeviceName'',
             dest_device_name := get_field row ''destDeviceName'',
             orig_ip_addr := get_field row ''origIpAddr'',
             dest_ip_addr := get_field row ''destIpAddr'',
             calling_party_number_partition := get_field row ''callingPartyNumberPartition'',
             original_called_party_number_partition :=
               get_field row ''originalCalledPartyNumberPartition'',
             final_called_party_number_partition :=
               get_field row ''finalCalledPartyNumberPartition'',
             hunt_pilot_dn := get_field row ''huntPilotDN'',
             hunt_pilot_partition := get_field row ''huntPilotPartition''\<rparr>))))"

text \<open>
  What \<^verbatim>\<open>csv.reader\<close> hands to the loop: a row of fields, or an exception raised
  while reading, which leaves the loop and is logged by the outer handler.
\<close>

datatype reader_item = Row "string list" | Reader_Error

fun parse_rows ::
  "fromtimestamp \<Rightarrow> reader_item list \<Rightarrow> CDRRecord list \<times> nat \<Rightarrow> CDRRecord list \<times> nat" where
  "parse_rows fts [] (records, total_rows) = (records, total_rows)"
| "parse_rows fts (Reader_Error # items) (records, total_rows) = (records, total_rows)"
| "parse_rows fts (Row row # items) (records, total_rows) =
     (if row = [] \<or> length row < 50 then parse_rows fts items (records, total_rows + 1)
      else if safe_int (if row \<noteq> [] then row ! 0 else ''0'') 0 \<noteq> 1
      then parse_rows fts items (records, total_rows + 1)
      else
        (case make_record fts row (safe_int (if row \<noteq> [] then row ! 0 else ''0'') 0) of
           Inl e \<Rightarrow> parse_rows fts items (records, total_rows + 1)
         | Inr r \<Rightarrow>
             if date_time_origination r \<noteq> None
             then parse_rows fts items (records @ [r], total_rows + 1)
             else parse_rows fts items (records, total_rows + 1)))"

text \<open>\<open>None\<close> is a file that cannot be opened: the outer handler returns the empty result.\<close>

definition parse_file :: "fromtimestamp \<Rightarrow> reader_item list option \<Rightarrow> CDRRecord list \<times> nat" where
  "parse_file fts file =
     (case file of None \<Rightarrow> ([], 0) | Some items \<Rightarrow> parse_rows fts items ([], 0))"

text \<open>
  One platform, for the examples: local time is UTC, years after 9999 raise
  \<^verbatim>\<open>ValueError\<close>, and an epoch beyond a 64-bit \<^verbatim>\<open>time_t\<close> raises \<^verbatim>\<open>OverflowError\<close>.
\<close>

definition fromtimestamp_utc :: fromtimestamp where
  "fromtimestamp_utc epoch =
     (if epoch \<le> 253402300799 then Inr (62135596800000000 + epoch * 1000000)
      else if epoch < 2 ^ 63 then Inl ValueError
      else Inl OverflowError)"

section \<open>The store (\<^verbatim>\<open>CDRDatabase\<close>)\<close>

text \<open>
  The two SQLite tables are lists of rows in rowid order. A column that Python always
  binds to a \<^verbatim>\<open>str\<close> or an \<^verbatim>\<open>int\<close> holds such a value; the origination time of a
  record may be \<^verbatim>\<open>None\<close>, which is bound as SQL \<^verbatim>\<open>NULL\<close>. The \<^verbatim>\<open>AUTOINCREMENT\<close>
  counters are the largest rowid handed out so far. A \<^verbatim>\<open>datetime\<close> is stored as its ISO
  text, whose order and equality are those of the time itself. The store is taken to be
  available: failures of the engine and the limits of its integer columns are outside the
  model.
\<close>

record failed_call =
  fc_id :: nat
  fc_global_call_id :: string
  fc_date_time_origination :: "datetime option"
  fc_calling_party_number :: string
  fc_original_called_party_number :: string
  fc_final_called_party_number :: string
  fc_orig_cause_value :: int
  fc_dest_cause_value :: int
  fc_failure_reason :: string
  fc_duration :: int
  fc_orig_device_name :: string
  fc_dest_device_name :: string
  fc_orig_ip_addr :: string
  fc_dest_ip_addr :: string
  fc_created_at :: datetime
  fc_file_hash :: string

record processed_file =
  pf_id :: nat
  pf_filename :: string
  pf_file_hash :: string
  pf_records_processed :: int
  pf_failed_calls_found :: int
  pf_processed_at :: datetime

record CDRDatabase =
  failed_calls :: "failed_call list"
  failed_calls_seq :: nat
  processed_files :: "processed_file list"
  processed_files_seq :: nat

text \<open>The state after \<^verbatim>\<open>_init_database\<close> on a new file.\<close>

definition init_database :: CDRDatabase where
  "init_database =
     \<lparr>failed_calls = [], failed_calls_seq = 0, processed_files = [], processed_files_seq = 0\<rparr>"

text \<open>
  The wall clock: \<^verbatim>\<open>datetime.now()\<close> of Python (local time) and \<^verbatim>\<open>CURRENT_TIMESTAMP\<close>
  of SQLite (UTC), as read during one call.
\<close>

record clock =
  py_now :: datetime
  sql_now :: datetime

definition is_file_processed :: "CDRDatabase \<Rightarrow> string \<Rightarrow> string \<Rightarrow> bool" where
  "is_file_processed db filename file_hash =
     (\<exists>p \<in> set (processed_files db). pf_filename p = filename \<and> pf_file_hash p = file_hash)"

text \<open>
  \<^verbatim>\<open>INSERT OR REPLACE\<close>: the row that holds the same (unique) filename is deleted and the
  new row is appended under a new rowid.
\<close>

definition mark_file_processed ::
  "clock \<Rightarrow> CDRDatabase \<Rightarrow> string \<Rightarrow> string \<Rightarrow> int \<Rightarrow> int \<Rightarrow> CDRDatabase" where
  "mark_file_processed clk db filename file_hash records_processed failed_calls_found =
     db\<lparr>processed_files :=
          filter (\<lambda>p. pf_filename p \<noteq> filename) (processed_files db) @
          [\<lparr>pf_id = processed_files_seq db + 1, pf_filename = filename,
            pf_file_hash = file_hash, pf_records_processed = records_processed,
            pf_failed_calls_found = failed_calls_found, pf_processed_at = py_now clk\<rparr>],
        processed_files_seq := processed_files_seq db + 1\<rparr>"

text \<open>
  The constraint \<^verbatim>\<open>UNIQUE(global_call_id, date_time_origination)\<close>: two rows collide when
  both columns are equal, and in SQL a \<^verbatim>\<open>NULL\<close> is equal to nothing, itself included.
\<close>

definition unique_conflict :: "failed_call \<Rightarrow> CDRRecord \<Rightarrow> bool" where
  "unique_conflict row r =
     (fc_global_call_id row = global_call_id r \<and>
      (case (fc_date_time_origination row, date_time_origination r) of
         (Some a, Some b) \<Rightarrow> a = b
       | _ \<Rightarrow> False))"

text \<open>
  \<^verbatim>\<open>INSERT OR IGNORE\<close>: on a collision the statement does nothing and raises nothing, so
  the handler for \<^verbatim>\<open>sqlite3.IntegrityError\<close> is never entered.
\<close>

definition insert_failed_call ::
  "clock \<Rightarrow> CDRDatabase \<Rightarrow> CDRRecord \<Rightarrow> string \<Rightarrow> CDRDatabase" where
  "insert_failed_call clk db r file_hash =
     (if \<exists>row \<in> set (failed_calls db). unique_conflict row r then db
      else
        db\<lparr>failed_calls :=
             failed_calls db @
             [\<lparr>fc_id = failed_calls_seq db + 1,
               fc_global_call_id = global_call_id r,
               fc_date_time_origination = date_time_origination r,
               fc_calling_party_number = calling_party_number r,
               fc_original_called_party_number = original_called_party_number r,
               fc_final_called_party_number = final_called_party_number r,
               fc_orig_cause_value = orig_cause_value r,
               fc_dest_cause_value = dest_cause_value r,
               fc_failure_reason = failure_reason r,
               fc_duration = duration r,
               fc_orig_device_name = orig_device_name r,
               fc_dest_device_name = dest_device_name r,
               fc_orig_ip_addr = orig_ip_addr r,
               fc_dest_ip_addr = dest_ip_addr r,
               fc_created_at = sql_now clk,
               fc_file_hash = file_hash\<rparr>],
           failed_calls_seq := failed_calls_seq db + 1\<rparr>)"

subsection \<open>\<^verbatim>\<open>get_failure_statistics\<close>\<close>

text \<open>\<^verbatim>\<open>datetime.now() - timedelta(hours=hours)\<close> and the same with days.\<close>

definition cutoff_hours :: "datetime \<Rightarrow> int \<Rightarrow> py_error + datetime" where
  "cutoff_hours now hours =
     (case timedelta_hours hours of Inl e \<Rightarrow> Inl e | Inr td \<Rightarrow> datetime_sub now td)"

definition cutoff_days :: "datetime \<Rightarrow> int \<Rightarrow> py_error + datetime" where
  "cutoff_days now days =
     (case timedelta_days days of Inl e \<Rightarrow> Inl e | Inr td \<Rightarrow> datetime_sub now td)"

text \<open>\<^verbatim>\<open>WHERE date_time_origination >= ?\<close>: a \<^verbatim>\<open>NULL\<close> time satisfies no comparison.\<close>

definition in_window :: "datetime \<Rightarrow> failed_call \<Rightarrow> bool" where
  "in_window cutoff row =
     (case fc_date_time_origination row of None \<Rightarrow> False | Some t \<Rightarrow> t \<ge> cutoff)"

record cause_bucket =
  bc_dest_cause_value :: int
  bc_failure_reason :: string
  bc_count :: int

text \<open>
  \<^verbatim>\<open>SELECT dest_cause_value, failure_reason, COUNT(*) ... GROUP BY dest_cause_value
  ORDER BY count DESC\<close>. The column \<^verbatim>\<open>failure_reason\<close> is not aggregated: SQLite takes it
  from one row of the group, which one is not specified, so the choice is the parameter
  \<open>pick\<close>. The order among buckets of equal count is not specified either; here they stay
  in ascending order of the code.
\<close>

definition by_cause_query ::
  "(failed_call list \<Rightarrow> failed_call) \<Rightarrow> failed_call list \<Rightarrow> cause_bucket list" where
  "by_cause_query pick rows =
     sort_key (\<lambda>b. - bc_count b)
       (map (\<lambda>code.
               \<lparr>bc_dest_cause_value = code,
                bc_failure_reason =
                  fc_failure_reason (pick (filter (\<lambda>row. fc_dest_cause_value row = code) rows)),
                bc_count = int (length (filter (\<lambda>row. fc_dest_cause_value row = code) rows))\<rparr>)
            (sort (remdups (map fc_dest_cause_value rows))))"

text \<open>
  \<^verbatim>\<open>GROUP BY hour ORDER BY hour\<close>, the hour being the text \<^verbatim>\<open>%Y-%m-%d %H:00\<close> of the
  origination time: here the number of whole hours since 0001-01-01 00:00.
\<close>

definition by_hour_query :: "failed_call list \<Rightarrow> (int \<times> int) list" where
  "by_hour_query rows =
     (let hours =
            List.map_filter
              (\<lambda>row. map_option (\<lambda>t. t div 3600000000) (fc_date_time_origination row)) rows
      in map (\<lambda>h. (h, int (length (filter (\<lambda>x. x = h) hours)))) (sort (remdups hours)))"

text \<open>
  The three rankings: rows with a blank key are left out, the groups are ordered by
  count descending and cut to ten. Groups of equal count stay in the order in which
  \<open>remdups\<close> lists the keys.
\<close>

definition top_ten :: "(failed_call \<Rightarrow> string) \<Rightarrow> failed_call list \<Rightarrow> (string \<times> int) list" where
  "top_ten key rows =
     (let keys = filter (\<lambda>k. k \<noteq> []) (map key rows)
      in take 10
           (sort_key (\<lambda>(k, c). - c)
              (map (\<lambda>k. (k, int (length (filter (\<lambda>x. x = k) keys)))) (remdups keys))))"

record failure_statistics =
  total_failed_calls :: int
  by_cause :: "cause_bucket list"
  by_hour :: "(int \<times> int) list"
  top_callers :: "(string \<times> int) list"
  top_destinations :: "(string \<times> int) list"
  top_devices :: "(string \<times> int) list"
  analysis_period_hours :: int
  cutoff_time :: datetime

definition get_failure_statistics ::
  "(failed_call list \<Rightarrow> failed_call) \<Rightarrow> clock \<Rightarrow> CDRDatabase \<Rightarrow> int \<Rightarrow>
     py_error + failure_statistics" where
  "get_failure_statistics pick clk db hours =
     (case cutoff_hours (py_now clk) hours of
        Inl e \<Rightarrow> Inl e
      | Inr cutoff \<Rightarrow>
          (let rows = filter (in_window cutoff) (failed_calls db)
           in Inr \<lparr>total_failed_calls = int (length rows),
                   by_cause = by_cause_query pick rows,
                   by_hour = by_hour_query rows,
                   top_callers = top_ten fc_calling_party_number rows,
                   top_destinations = top_ten fc_original_called_party_number rows,
                   top_devices = top_ten fc_orig_device_name rows,
                   analysis_period_hours = hours,
                   cutoff_time = cutoff\<rparr>))"

subsection \<open>\<^verbatim>\<open>cleanup_old_records\<close>\<close>

text \<open>\<^verbatim>\<open>WHERE date_time_origination < ?\<close>\<close>

definition older_than :: "datetime \<Rightarrow> failed_call \<Rightarrow> bool" where
  "older_than cutoff row =
     (case fc_date_time_origination row of None \<Rightarrow> False | Some t \<Rightarrow> t < cutoff)"

definition cleanup_old_records ::
  "clock \<Rightarrow> CDRDatabase \<Rightarrow> int \<Rightarrow> py_error + CDRDatabase \<times> int" where
  "cleanup_old_records clk db retention_days =
     (case cutoff_days (py_now clk) retention_days of
        Inl e \<Rightarrow> Inl e
      | Inr cutoff \<Rightarrow>
          Inr (db\<lparr>failed_calls := filter (\<lambda>row. \<not> older_than cutoff row) (failed_calls db)\<rparr>,
               int (length (filter (older_than cutoff) (failed_calls db)))))"

section \<open>Ingestion (\<^verbatim>\<open>CDRReporter.fetch_and_process_cdr_files\<close>)\<close>

text \<open>\<^verbatim>\<open>os.path.basename\<close>: what follows the last slash.\<close>

definition basename :: "string \<Rightarrow> string" where
  "basename p = rev (takeWhile (\<lambda>c. c \<noteq> CHR ''/'') (rev p))"

text \<open>
  A downloaded file as the loop sees it: its path, the MD5 digest of its bytes (\<open>None\<close>
  when the file cannot be opened, the digest function itself is not modelled) and what
  the CSV reader yields from it.
\<close>

record cdr_file =
  file_path :: string
  file_digest :: "string option"
  file_rows :: "reader_item list option"

definition get_file_hash :: "cdr_file \<Rightarrow> py_error + string" where
  "get_file_hash f = (case file_digest f of None \<Rightarrow> Inl OSError | Some h \<Rightarrow> Inr h)"

text \<open>The inner loop over the records of one file.\<close>

fun insert_failed_records ::
  "clock \<Rightarrow> string \<Rightarrow> CDRRecord list \<Rightarrow> CDRDatabase \<times> int \<Rightarrow> CDRDatabase \<times> int" where
  "insert_failed_records clk file_hash [] (db, failed_count) = (db, failed_count)"
| "insert_failed_records clk file_hash (r # rs) (db, failed_count) =
     (if is_failed r
      then insert_failed_records clk file_hash rs
             (insert_failed_call clk db r file_hash, failed_count + 1)
      else insert_failed_records clk file_hash rs (db, failed_count))"

text \<open>
  The loop over the downloaded files. An exception of \<^verbatim>\<open>get_file_hash\<close> is not handled
  inside the loop: it ends the run, and the store keeps what was committed before.
\<close>

fun process_files ::
  "fromtimestamp \<Rightarrow> clock \<Rightarrow> cdr_file list \<Rightarrow> CDRDatabase \<times> int \<times> int \<Rightarrow>
     CDRDatabase \<times> (py_error + int \<times> int)" where
  "process_files fts clk [] (db, total_records, total_failed) =
     (db, Inr (total_records, total_failed))"
| "process_files fts clk (f # fs) (db, total_records, total_failed) =
     (case get_file_hash f of
        Inl e \<Rightarrow> (db, Inl e)
      | Inr file_hash \<Rightarrow>
          (let filename = basename (file_path f)
           in if is_file_processed db filename file_hash
              then process_files fts clk fs (db, total_records, total_failed)
              else
                (let (records, row_count) = parse_file fts (file_rows f);
                     (db1, failed_count) =
                       insert_failed_records clk file_hash records (db, 0);
                     db2 = mark_file_processed clk db1 filename file_hash
                             (int (length records)) failed_count
                 in process_files fts clk fs
                      (db2, total_records + int (length records),
                       total_failed + failed_count))))"

text \<open>The SFTP download is outside the model: its result is the argument.\<close>

definition fetch_and_process_cdr_files ::
  "fromtimestamp \<Rightarrow> clock \<Rightarrow> cdr_file list \<Rightarrow> CDRDatabase \<Rightarrow>
     CDRDatabase \<times> (py_error + int \<times> int)" where
  "fetch_and_process_cdr_files fts clk downloaded_files db =
     process_files fts clk downloaded_files (db, 0, 0)"

section \<open>The cause table of the PDF report\<close>

text \<open>
  Python's \<^verbatim>\<open>/\<close> on integers. The quotient is a float in Python and an exact rational
  here; its rendering with one decimal (\<^verbatim>\<open>f"{pct:.1f}%"\<close>) is not modelled.
\<close>

definition truediv :: "int \<Rightarrow> int \<Rightarrow> py_error + rat" where
  "truediv a b = (if b = 0 then Inl ZeroDivisionError else Inr (of_int a / of_int b))"

record cause_row =
  cr_code :: string
  cr_reason :: string
  cr_count :: string
  cr_pct :: rat

text \<open>The body of the loop: one line of the table.\<close>

definition cause_line :: "int \<Rightarrow> cause_bucket \<Rightarrow> py_error + cause_row" where
  "cause_line tot item =
     (case truediv (bc_count item) tot of
        Inl e \<Rightarrow> Inl e
      | Inr q \<Rightarrow>
          Inr \<lparr>cr_code = str_int (bc_dest_cause_value item),
               cr_reason =
                 (if length (bc_failure_reason item) > 40
                  then take 40 (bc_failure_reason item) @ ''...''
                  else bc_failure_reason item),
               cr_count = str_int (bc_count item),
               cr_pct = q * 100\<rparr>)"

fun cause_lines :: "int \<Rightarrow> cause_bucket list \<Rightarrow> py_error + cause_row list" where
  "cause_lines tot [] = Inr []"
| "cause_lines tot (item # items) =
     (case cause_line tot item of
        Inl e \<Rightarrow> Inl e
      | Inr line \<Rightarrow>
          (case cause_lines tot items of
             Inl e \<Rightarrow> Inl e
           | Inr ls \<Rightarrow> Inr (line # ls)))"

text \<open>
  The rows of \<^verbatim>\<open>cause_data\<close> below the header, as \<^verbatim>\<open>generate_pdf_report\<close> builds them:
  \<^verbatim>\<open>total = stats['total_failed_calls'] or 1\<close>, and the first fifteen buckets.
\<close>

definition pdf_cause_data :: "failure_statistics \<Rightarrow> py_error + cause_row list" where
  "pdf_cause_data stats =
     (if by_cause stats \<noteq> []
      then cause_lines
             (if total_failed_calls stats \<noteq> 0 then total_failed_calls stats else 1)
             (take 15 (by_cause stats))
      else Inr [])"

section \<open>Example data\<close>

definition ex_clock :: clock where
  "ex_clock = \<lparr>py_now = 63840873600000000, sql_now = 63840870000000000\<rparr>"

definition ex_call :: "string \<Rightarrow> int \<Rightarrow> int \<Rightarrow> datetime \<Rightarrow> CDRRecord" where
  "ex_call gid orig dest t =
     CDRRecord_default\<lparr>global_call_id := gid, date_time_origination := Some t,
       orig_cause_value := orig, dest_cause_value := dest\<rparr>"

text \<open>Three failed calls of the last day: two busy, one unanswered.\<close>

definition ex_db :: CDRDatabase where
  "ex_db =
     insert_failed_call ex_clock
       (insert_failed_call ex_clock
          (insert_failed_call ex_clock init_database
             (ex_call ''1-100'' 0 17 63840870000000000) ''h1'')
          (ex_call ''1-101'' 0 19 63840870060000000) ''h1'')
       (ex_call ''1-102'' 0 17 63840870120000000) ''h1''"

text \<open>Two failed calls whose terminating cause is zero: busy and unanswered at the origin.\<close>

definition ex_db_orig :: CDRDatabase where
  "ex_db_orig =
     insert_failed_call ex_clock
       (insert_failed_call ex_clock init_database
          (ex_call ''1-200'' 17 0 63840870000000000) ''h2'')
       (ex_call ''1-201'' 19 0 63840870060000000) ''h2''"

text \<open>
  Calls around the seven-day horizon of \<open>ex_clock\<close>: one second before it, exactly at
  it, and one second after it.
\<close>

definition ex_db_old :: CDRDatabase where
  "ex_db_old =
     insert_failed_call ex_clock
       (insert_failed_call ex_clock
          (insert_failed_call ex_clock init_database
             (ex_call ''1-300'' 0 17 63840268799000000) ''h3'')
          (ex_call ''1-301'' 0 17 63840268800000000) ''h3'')
       (ex_call ''1-302'' 0 17 63840268801000000) ''h3''"

text \<open>Rows of a CDR file: too short, a foreign record type, no origination time, a busy call.\<close>

definition ex_row_short :: "string list" where
  "ex_row_short = replicate 40 ''1''"

definition ex_row_foreign :: "string list" where
  "ex_row_foreign = ''2'' # replicate 57 []"

definition ex_row_no_time :: "string list" where
  "ex_row_no_time = [''1'', ''1'', ''100'', ''7'', ''0''] @ replicate 53 []"

definition ex_row_busy :: "string list" where
  "ex_row_busy =
     [''1'', ''1'', ''100'', ''7'', ''1705314600''] @ replicate 6 [] @ [''0''] @
     replicate 21 [] @ [''17''] @ replicate 21 [] @ [''0'', ''SEP1'', ''SEP2'']"

definition ex_file :: cdr_file where
  "ex_file =
     \<lparr>file_path = ''./cdr_files/cdr_A_01'', file_digest = Some ''d41d8'',
      file_rows = Some [Row ex_row_short, Row ex_row_busy]\<rparr>"

section \<open>Failure classification\<close>

lemma CAUSE_CODES_distinct: "distinct (map fst CAUSE_CODES)"
  by (simp add: CAUSE_CODES_def)

lemma cause_text_known: "(c, t) \<in> set CAUSE_CODES \<Longrightarrow> cause_text c = t"
  using CAUSE_CODES_distinct by (simp add: cause_text_def)

lemma cause_text_unknown:
  "c \<notin> fst ` set CAUSE_CODES \<Longrightarrow> cause_text c = ''Unknown cause code: '' @ str_int c"
proof -
  assume "c \<notin> fst ` set CAUSE_CODES"
  then have "map_of CAUSE_CODES c = None" by (simp add: map_of_eq_None_iff)
  then show ?thesis by (simp add: cause_text_def)
qed

text \<open>
  Claim C1. A record is classified as failed exactly when its duration is zero and at
  least one of the two cause codes, terminating or originating, lies outside the
  success set \<open>{0, 16, 393216}\<close>. In particular a record with a nonzero duration is
  never failed, whatever its cause codes.
\<close>

theorem is_failed_iff:
  "(is_failed r \<longleftrightarrow>
      duration r = 0 \<and>
      (dest_cause_value r \<notin> {0, 16, 393216} \<or> orig_cause_value r \<notin> {0, 16, 393216}))
   \<and> (duration r \<noteq> 0 \<longrightarrow> \<not> is_failed r)"
  by (simp add: is_failed_def SUCCESS_CODES_def)

theorem is_failed_iff_witness:
  "is_failed (CDRRecord_default\<lparr>dest_cause_value := 17\<rparr>)
   \<and> \<not> is_failed (CDRRecord_default\<lparr>dest_cause_value := 17, duration := 120\<rparr>)"
  using is_failed_iff [of "CDRRecord_default\<lparr>dest_cause_value := 17\<rparr>"]
    is_failed_iff [of "CDRRecord_default\<lparr>dest_cause_value := 17, duration := 120\<rparr>"]
  by (simp add: CDRRecord_default_def)

end
